theory Spec2Isabelle
  imports Complex_Main "HOL-Library.Multiset" "HOL-Library.Char_ord" "HOL-Library.List_Lexorder"
begin

section \<open>The three tables\<close>

text \<open>
  \<^verbatim>\<open>MovieLens_EDA.py\<close> reads three tables with \<^verbatim>\<open>pd.read_csv\<close> (lines 37, 42, 47)
  and derives every other value from them. A table is the list of its rows, in file
  order; a row is a record of the columns the script reads. The script's Step 3 records
  that the columns hold no missing value and have integer and text dtypes; the rows are
  taken at those dtypes (\<^verbatim>\<open>movie id\<close>, \<^verbatim>\<open>user id\<close>, \<^verbatim>\<open>rating\<close>, \<^verbatim>\<open>age\<close> are \<open>int\<close>,
  titles, dates, gender and occupation are \<open>string\<close>). Nothing about the values is
  assumed beyond the dtype: ids may repeat and ratings need not lie in 1..5.
\<close>

record movie_row =
  m_movie_id :: int
  m_movie_title :: string
  m_release_date :: string

record ratings_row =
  r_user_id :: int
  r_movie_id :: int
  r_rating :: int

record user_row =
  u_user_id :: int
  u_age :: int
  u_gender :: string
  u_occupation :: string

section \<open>The dataframe operations the script calls\<close>

text \<open>
  A pandas Series is an index with a value at each label, in order: an association list.
\<close>

type_synonym ('k, 'v) series = "('k \<times> 'v) list"

datatype py_error = KeyError | NameError

text \<open>
  \<^verbatim>\<open>sort_values(ascending=False)\<close>, called with the default \<^verbatim>\<open>kind\<close>. Its result
  is the series reordered so that the values descend; which of several equal values comes
  first is the sorting routine's choice and is not fixed here. The routine is therefore an
  argument \<open>srt\<close> of every definition that sorts, and \<open>sorts_descending srt\<close> is what is
  known of it: it reorders, and the values of the result descend.
\<close>

definition sorts_descending :: "(('k, 'v::linorder) series \<Rightarrow> ('k, 'v) series) \<Rightarrow> bool" where
  "sorts_descending srt \<longleftrightarrow>
     (\<forall>s. mset (srt s) = mset s \<and> sorted_wrt (\<lambda>a b. snd b \<le> snd a) (srt s))"

text \<open>
  One routine that meets it: \<^verbatim>\<open>kind='stable'\<close>, which reverses the values, sorts them
  ascending with a stable sort and reverses the result.
\<close>

definition stable_descending :: "('k, 'v::linorder) series \<Rightarrow> ('k, 'v) series" where
  "stable_descending s = rev (sort_key snd (rev s))"

text \<open>\<^verbatim>\<open>unique\<close>: the distinct values of a column, in order of first appearance.\<close>

definition unique :: "'a list \<Rightarrow> 'a list" where
  "unique col = rev (remdups (rev col))"

text \<open>
  \<^verbatim>\<open>col.value_counts()\<close>: one entry per distinct value of the column, holding the number
  of rows with that value, sorted by descending count. (pandas leaves missing values out
  of the count; the columns here hold none.)
\<close>

definition value_counts :: "(('k, nat) series \<Rightarrow> ('k, nat) series) \<Rightarrow> 'k list \<Rightarrow> ('k, nat) series" where
  "value_counts srt col = srt (map (\<lambda>k. (k, count_list col k)) (unique col))"

text \<open>
  \<^verbatim>\<open>df.groupby(key)\<close>: one group per distinct key, the keys ascending, each group holding
  the rows with that key in table order. (Rows with a missing key would form no group;
  the columns here hold no missing value.)
\<close>

definition groupby :: "('r \<Rightarrow> 'k::linorder) \<Rightarrow> 'r list \<Rightarrow> ('k \<times> 'r list) list" where
  "groupby key rows = map (\<lambda>k. (k, filter (\<lambda>r. key r = k) rows)) (sort (remdups (map key rows)))"

text \<open>
  \<^verbatim>\<open>mean()\<close> of an integer column: the sum over the count. pandas computes it in
  float64; the model keeps the exact quotient. No group of \<open>groupby\<close> is empty
  (\<open>groupby_nonempty\<close> below), so the quotient is never taken over zero rows.
\<close>

definition mean :: "int list \<Rightarrow> rat" where
  "mean xs = of_int (sum_list xs) / of_nat (length xs)"

definition groupby_mean :: "('r \<Rightarrow> 'k::linorder) \<Rightarrow> ('r \<Rightarrow> int) \<Rightarrow> 'r list \<Rightarrow> ('k, rat) series" where
  "groupby_mean key col rows = map (\<lambda>(k, g). (k, mean (map col g))) (groupby key rows)"

text \<open>\<^verbatim>\<open>s[s >= T]\<close>: the entries of a series of counts that reach \<open>T\<close>, in order.\<close>

definition ge_mask :: "nat \<Rightarrow> ('k, nat) series \<Rightarrow> ('k, nat) series" where
  "ge_mask T s = filter (\<lambda>p. T \<le> snd p) s"

text \<open>
  \<^verbatim>\<open>s[labels]\<close> with an index of labels: the entries of \<open>s\<close> at each label, in the
  order of the labels; a label that \<open>s\<close> does not have raises \<^verbatim>\<open>KeyError\<close>.
\<close>

fun series_getitem :: "('k, 'v) series \<Rightarrow> 'k list \<Rightarrow> py_error + ('k, 'v) series" where
  "series_getitem s [] = Inr []"
| "series_getitem s (k # ks) =
     (case filter (\<lambda>p. fst p = k) s of
        [] \<Rightarrow> Inl KeyError
      | ms \<Rightarrow> (case series_getitem s ks of Inl e \<Rightarrow> Inl e | Inr r \<Rightarrow> Inr (ms @ r)))"

text \<open>\<^verbatim>\<open>head(n)\<close>: the first \<open>n\<close> entries, all of them when there are fewer.\<close>

definition head :: "nat \<Rightarrow> 'a list \<Rightarrow> 'a list" where
  "head n s = take n s"

text \<open>
  \<^verbatim>\<open>reset_index()\<close> turns a series into a table with the index as a column; the rows
  are the entries.
\<close>

definition reset_index :: "('k, 'v) series \<Rightarrow> ('k \<times> 'v) list" where
  "reset_index s = s"

text \<open>
  \<^verbatim>\<open>left.merge(right, on=key)\<close> with the default \<^verbatim>\<open>how='inner'\<close>: one result row per
  pair of a left row and a right row with the same key. A result row is the pair of the
  two rows it joins. The rows are listed in the order of the left table, as pandas lists
  them from version 2.2 on (earlier versions list them key by key); the theorems below
  use only which rows the result holds and how often, not their order.
\<close>

definition merge_on :: "('l \<Rightarrow> 'k) \<Rightarrow> ('r \<Rightarrow> 'k) \<Rightarrow> 'l list \<Rightarrow> 'r list \<Rightarrow> ('l \<times> 'r) list" where
  "merge_on kl kr left right =
     concat (map (\<lambda>l. map (\<lambda>r. (l, r)) (filter (\<lambda>r. kr r = kl l) right)) left)"

section \<open>The values the script derives\<close>

text \<open>Line 113: \<^verbatim>\<open>ratings['movie id'].value_counts()\<close>.\<close>

definition ratings_per_movie :: "((int, nat) series \<Rightarrow> (int, nat) series) \<Rightarrow> ratings_row list \<Rightarrow> (int, nat) series" where
  "ratings_per_movie srt ratings = value_counts srt (map r_movie_id ratings)"

text \<open>Line 124: \<^verbatim>\<open>ratings.groupby('movie id')['rating'].mean()\<close>.\<close>

definition avg_rating_per_movie :: "ratings_row list \<Rightarrow> (int, rat) series" where
  "avg_rating_per_movie ratings = groupby_mean r_movie_id r_rating ratings"


text \<open>
  Lines 136 and 141 with the literal 50 as an argument \<open>T\<close>: the count, filter and mean
  steps at a rating-count threshold.
\<close>

definition filtered_movies_at :: "nat \<Rightarrow> ((int, nat) series \<Rightarrow> (int, nat) series) \<Rightarrow> ratings_row list \<Rightarrow> (int, nat) series" where
  "filtered_movies_at T srt ratings = ge_mask T (ratings_per_movie srt ratings)"

definition filtered_avg_ratings_at :: "nat \<Rightarrow> ((int, nat) series \<Rightarrow> (int, nat) series) \<Rightarrow> ratings_row list \<Rightarrow> py_error + (int, rat) series" where
  "filtered_avg_ratings_at T srt ratings =
     series_getitem (avg_rating_per_movie ratings) (map fst (filtered_movies_at T srt ratings))"

text \<open>Line 136: \<^verbatim>\<open>ratings_per_movie[ratings_per_movie >= 50]\<close>.\<close>

definition filtered_movies :: "((int, nat) series \<Rightarrow> (int, nat) series) \<Rightarrow> ratings_row list \<Rightarrow> (int, nat) series" where
  "filtered_movies srt ratings = ge_mask 50 (ratings_per_movie srt ratings)"

text \<open>Line 141: \<^verbatim>\<open>avg_rating_per_movie[filtered_movies.index]\<close>.\<close>

definition filtered_avg_ratings :: "((int, nat) series \<Rightarrow> (int, nat) series) \<Rightarrow> ratings_row list \<Rightarrow> py_error + (int, rat) series" where
  "filtered_avg_ratings srt ratings =
     series_getitem (avg_rating_per_movie ratings) (map fst (filtered_movies srt ratings))"

text \<open>Line 146: \<^verbatim>\<open>filtered_avg_ratings.sort_values(ascending=False).head(10)\<close>.\<close>

definition top_10_movies :: "((int, nat) series \<Rightarrow> (int, nat) series) \<Rightarrow> ((int, rat) series \<Rightarrow> (int, rat) series) \<Rightarrow> ratings_row list \<Rightarrow> py_error + (int, rat) series" where
  "top_10_movies srt srtm ratings =
     (case filtered_avg_ratings srt ratings of
        Inl e \<Rightarrow> Inl e
      | Inr s \<Rightarrow> Inr (head 10 (srtm s)))"

text \<open>Line 155: \<^verbatim>\<open>movie[['movie id', 'movie title']]\<close>.\<close>

definition movie_titles :: "movie_row list \<Rightarrow> (int \<times> string) list" where
  "movie_titles movie = map (\<lambda>m. (m_movie_id m, m_movie_title m)) movie"

text \<open>Lines 159 and 160: \<^verbatim>\<open>top_10_movies.reset_index().merge(movie_titles, on='movie id')\<close>.\<close>

definition top_10_movies_df :: "((int, nat) series \<Rightarrow> (int, nat) series) \<Rightarrow> ((int, rat) series \<Rightarrow> (int, rat) series) \<Rightarrow> movie_row list \<Rightarrow> ratings_row list \<Rightarrow> py_error + ((int \<times> rat) \<times> (int \<times> string)) list" where
  "top_10_movies_df srt srtm movie ratings =
     (case top_10_movies srt srtm ratings of
        Inl e \<Rightarrow> Inl e
      | Inr t \<Rightarrow> Inr (merge_on fst fst (reset_index t) (movie_titles movie)))"

text \<open>Line 211: \<^verbatim>\<open>ratings.merge(user, on='user id')\<close>.\<close>

definition ratings_users :: "ratings_row list \<Rightarrow> user_row list \<Rightarrow> (ratings_row \<times> user_row) list" where
  "ratings_users ratings user = merge_on r_user_id u_user_id ratings user"



section \<open>The script as a state transformer\<close>

























section \<open>Fixtures\<close>

text \<open>
  Small tables on which the definitions are evaluated. \<open>fixture_ratings\<close> is the
  example of the specification: movie 1 with the ratings 5, 5, 4 and movie 2 with the
  rating 1. \<open>popular_ratings\<close> adds movie 7 with fifty ratings of 4 and movie 9 with
  fifty-one ratings of 3; in \<open>tied_ratings\<close> movies 7 and 8 have the same mean; in
  \<open>many_ratings\<close> eleven movies have fifty ratings each. User 3 is not in \<open>fixture_user\<close>, and movie 9 is not in
  \<open>fixture_movie\<close>.
\<close>

definition fixture_ratings :: "ratings_row list" where
  "fixture_ratings =
     [\<lparr>r_user_id = 1, r_movie_id = 1, r_rating = 5\<rparr>,
      \<lparr>r_user_id = 2, r_movie_id = 1, r_rating = 5\<rparr>,
      \<lparr>r_user_id = 3, r_movie_id = 1, r_rating = 4\<rparr>,
      \<lparr>r_user_id = 1, r_movie_id = 2, r_rating = 1\<rparr>]"

definition popular_ratings :: "ratings_row list" where
  "popular_ratings =
     replicate 50 \<lparr>r_user_id = 1, r_movie_id = 7, r_rating = 4\<rparr> @
     fixture_ratings @
     replicate 51 \<lparr>r_user_id = 2, r_movie_id = 9, r_rating = 3\<rparr>"


definition many_ratings :: "ratings_row list" where
  "many_ratings =
     concat (map (\<lambda>m. replicate 50 \<lparr>r_user_id = 1, r_movie_id = m, r_rating = m mod 5 + 1\<rparr>)
       [1, 2, 3, 4, 5, 6, 7, 8, 9, 10, 11])"

definition fixture_user :: "user_row list" where
  "fixture_user =
     [\<lparr>u_user_id = 1, u_age = 24, u_gender = ''M'', u_occupation = ''technician''\<rparr>,
      \<lparr>u_user_id = 2, u_age = 53, u_gender = ''F'', u_occupation = ''other''\<rparr>]"

definition fixture_movie :: "movie_row list" where
  "fixture_movie =
     [\<lparr>m_movie_id = 1, m_movie_title = ''Toy Story (1995)'', m_release_date = ''01-Jan-1995''\<rparr>,
      \<lparr>m_movie_id = 7, m_movie_title = ''Twelve Monkeys (1995)'', m_release_date = ''01-Jan-1995''\<rparr>]"

section \<open>Facts about the dataframe operations\<close>

lemma stable_descending_sorts: "sorts_descending stable_descending"
proof -
  have "sorted_wrt (\<lambda>a b. snd b \<le> snd a) (rev (sort_key snd (rev s)))" for s :: "('a, 'b::linorder) series"
  proof -
    have "sorted (map snd (sort_key snd (rev s)))"
      by (rule sorted_sort_key)
    then have "sorted_wrt (\<lambda>a b. snd a \<le> snd b) (sort_key snd (rev s))"
      by (simp add: sorted_map)
    then show ?thesis
      by (simp add: sorted_wrt_rev)
  qed
  then show ?thesis
    by (simp add: sorts_descending_def stable_descending_def)
qed

lemma sorts_descending_mset: "sorts_descending srt \<Longrightarrow> mset (srt s) = mset s"
  by (simp add: sorts_descending_def)

lemma sorts_descending_set: "sorts_descending srt \<Longrightarrow> set (srt s) = set s"
  using sorts_descending_mset [of srt s] by (metis set_mset_mset)

lemma sorts_descending_length: "sorts_descending srt \<Longrightarrow> length (srt s) = length s"
  using sorts_descending_mset [of srt s] by (metis size_mset)



lemma set_unique: "set (unique col) = set col"
  by (simp add: unique_def)

lemma distinct_unique: "distinct (unique col)"
  by (simp add: unique_def)


lemma set_value_counts:
  assumes "sorts_descending srt"
  shows "set (value_counts srt col) = (\<lambda>k. (k, count_list col k)) ` set col"
  unfolding value_counts_def
  by (simp add: sorts_descending_set [OF assms] set_unique)

lemma keys_value_counts_mset:
  assumes "sorts_descending srt"
  shows "mset (map fst (value_counts srt col)) = mset (unique col)"
proof -
  have "mset (map fst (value_counts srt col)) =
        mset (map fst (map (\<lambda>k. (k, count_list col k)) (unique col)))"
    unfolding value_counts_def
    using sorts_descending_mset [OF assms, of "map (\<lambda>k. (k, count_list col k)) (unique col)"]
    by (metis mset_map)
  then show ?thesis
    by (simp add: comp_def)
qed

lemma distinct_keys_value_counts:
  assumes "sorts_descending srt"
  shows "distinct (map fst (value_counts srt col))"
  using mset_eq_imp_distinct_iff [OF keys_value_counts_mset [OF assms, of col]] distinct_unique [of col]
  by simp

lemma keys_groupby: "map fst (groupby key rows) = sort (remdups (map key rows))"
  by (simp add: groupby_def comp_def)

lemma distinct_keys_groupby: "distinct (map fst (groupby key rows))"
  by (simp add: keys_groupby)

lemma set_keys_groupby: "fst ` set (groupby key rows) = key ` set rows"
  using keys_groupby [of key rows] by (metis set_map set_remdups set_sort)

lemma groupby_entry:
  "(k, g) \<in> set (groupby key rows) \<longleftrightarrow> k \<in> key ` set rows \<and> g = filter (\<lambda>r. key r = k) rows"
  by (auto simp: groupby_def)

lemma groupby_nonempty: "(k, g) \<in> set (groupby key rows) \<Longrightarrow> g \<noteq> []"
  by (auto simp: groupby_entry filter_empty_conv)




lemma series_getitem_present:
  assumes "set ks \<subseteq> fst ` set s"
  shows "series_getitem s ks = Inr (concat (map (\<lambda>k. filter (\<lambda>p. fst p = k) s) ks))"
  using assms
proof (induction ks)
  case Nil
  then show ?case by simp
next
  case (Cons k ks)
  then have "filter (\<lambda>p. fst p = k) s \<noteq> []"
    by (auto simp: filter_empty_conv)
  with Cons show ?case
    by (auto split: list.splits)
qed

lemma series_getitem_absent:
  assumes "\<not> set ks \<subseteq> fst ` set s"
  shows "series_getitem s ks = Inl KeyError"
  using assms
proof (induction ks)
  case Nil
  then show ?case by simp
next
  case (Cons k ks)
  show ?case
  proof (cases "filter (\<lambda>p. fst p = k) s")
    case Nil
    then show ?thesis by simp
  next
    case (Cons m ms)
    then have "k \<in> fst ` set s"
      by (metis (mono_tags, lifting) filter_eq_ConsD image_eqI in_set_conv_decomp)
    with Cons.prems have "\<not> set ks \<subseteq> fst ` set s" by simp
    then have "series_getitem s ks = Inl KeyError" by (rule Cons.IH)
    with Cons show ?thesis by simp
  qed
qed

lemma filter_key_distinct:
  assumes "distinct (map fst s)" and "(k, v) \<in> set s"
  shows "filter (\<lambda>p. fst p = k) s = [(k, v)]"
  using assms
proof (induction s)
  case Nil
  then show ?case by simp
next
  case (Cons p s)
  show ?case
  proof (cases "p = (k, v)")
    case True
    then have "k \<notin> fst ` set s" using Cons.prems by simp
    then have "filter (\<lambda>p. fst p = k) s = []"
      by (auto simp: filter_empty_conv)
    with True show ?thesis by simp
  next
    case False
    then have in_s: "(k, v) \<in> set s" using Cons.prems by simp
    have "fst p \<notin> fst ` set s" using Cons.prems by simp
    with in_s have "fst p \<noteq> k" by (metis fst_conv image_eqI)
    moreover have "filter (\<lambda>p. fst p = k) s = [(k, v)]"
      using Cons.IH Cons.prems in_s by simp
    ultimately show ?thesis by simp
  qed
qed

lemma set_merge_on:
  "set (merge_on kl kr left right) = {(l, r). l \<in> set left \<and> r \<in> set right \<and> kr r = kl l}"
  by (auto simp: merge_on_def)

lemma length_merge_on:
  "length (merge_on kl kr left right) =
   sum_list (map (\<lambda>l. length (filter (\<lambda>r. kr r = kl l) right)) left)"
  by (simp add: merge_on_def length_concat comp_def)

lemma count_list_map_filter: "count_list (map f xs) k = length (filter (\<lambda>r. f r = k) xs)"
  by (induction xs) auto

lemma keys_groupby_mean: "map fst (groupby_mean key col rows) = sort (remdups (map key rows))"
  by (simp add: groupby_mean_def groupby_def comp_def)

lemma set_keys_groupby_mean: "fst ` set (groupby_mean key col rows) = key ` set rows"
  using keys_groupby_mean [of key col rows] by (metis set_map set_remdups set_sort)

lemma groupby_mean_entry:
  "(k, v) \<in> set (groupby_mean key col rows) \<longleftrightarrow>
     k \<in> key ` set rows \<and> v = mean (map col (filter (\<lambda>r. key r = k) rows))"
  by (auto simp: groupby_mean_def groupby_def)

lemma filter_groupby_mean:
  assumes "k \<in> key ` set rows"
  shows "filter (\<lambda>p. fst p = k) (groupby_mean key col rows) =
         [(k, mean (map col (filter (\<lambda>r. key r = k) rows)))]"
proof (rule filter_key_distinct)
  show "distinct (map fst (groupby_mean key col rows))"
    by (simp add: keys_groupby_mean)
  show "(k, mean (map col (filter (\<lambda>r. key r = k) rows))) \<in> set (groupby_mean key col rows)"
    using assms by (simp add: groupby_mean_entry)
qed

lemma getitem_groupby_mean:
  assumes "set ks \<subseteq> key ` set rows"
  shows "series_getitem (groupby_mean key col rows) ks =
         Inr (map (\<lambda>k. (k, mean (map col (filter (\<lambda>r. key r = k) rows)))) ks)"
proof -
  have "set ks \<subseteq> fst ` set (groupby_mean key col rows)"
    using assms by (simp add: set_keys_groupby_mean)
  then have "series_getitem (groupby_mean key col rows) ks =
             Inr (concat (map (\<lambda>k. filter (\<lambda>p. fst p = k) (groupby_mean key col rows)) ks))"
    by (rule series_getitem_present)
  moreover have "map (\<lambda>k. filter (\<lambda>p. fst p = k) (groupby_mean key col rows)) ks =
                 map (\<lambda>k. [(k, mean (map col (filter (\<lambda>r. key r = k) rows)))]) ks"
    using assms by (intro map_cong refl filter_groupby_mean) auto
  moreover have "concat (map (\<lambda>k. [f k]) ks) = map f ks" for f :: "'a \<Rightarrow> 'a \<times> rat"
    by (induction ks) simp_all
  ultimately show ?thesis by simp
qed

lemma set_ratings_per_movie:
  assumes "sorts_descending srt"
  shows "set (ratings_per_movie srt ratings) =
         (\<lambda>m. (m, length (filter (\<lambda>r. r_movie_id r = m) ratings))) ` r_movie_id ` set ratings"
  unfolding ratings_per_movie_def
  by (simp add: set_value_counts [OF assms] count_list_map_filter)

lemma distinct_keys_ratings_per_movie:
  "sorts_descending srt \<Longrightarrow> distinct (map fst (ratings_per_movie srt ratings))"
  unfolding ratings_per_movie_def by (rule distinct_keys_value_counts)

lemma set_filtered_movies:
  "set (filtered_movies srt ratings) = {p \<in> set (ratings_per_movie srt ratings). 50 \<le> snd p}"
  by (auto simp: filtered_movies_def ge_mask_def)

lemma distinct_keys_filtered_movies:
  "sorts_descending srt \<Longrightarrow> distinct (map fst (filtered_movies srt ratings))"
  unfolding filtered_movies_def ge_mask_def
  by (rule distinct_map_filter) (rule distinct_keys_ratings_per_movie)

lemma keys_filtered_movies:
  assumes "sorts_descending srt"
  shows "fst ` set (filtered_movies srt ratings) =
         {m \<in> r_movie_id ` set ratings. 50 \<le> length (filter (\<lambda>r. r_movie_id r = m) ratings)}"
proof -
  have "fst ` {p \<in> (\<lambda>m. (m, c m)) ` A. 50 \<le> snd p} = {m \<in> A. 50 \<le> c m}"
    for c :: "int \<Rightarrow> nat" and A
    by force
  then show ?thesis
    by (simp only: set_filtered_movies set_ratings_per_movie [OF assms])
qed

lemma keys_filtered_movies_count:
  assumes "sorts_descending srt"
  shows "set (map fst (filtered_movies srt ratings)) =
         {m. 50 \<le> count_list (map r_movie_id ratings) m}"
proof -
  have "m \<in> r_movie_id ` set ratings" if "50 \<le> length (filter (\<lambda>r. r_movie_id r = m) ratings)" for m
  proof -
    from that have "filter (\<lambda>r. r_movie_id r = m) ratings \<noteq> []" by auto
    then show ?thesis by (auto simp: filter_empty_conv)
  qed
  then show ?thesis
    using keys_filtered_movies [OF assms, of ratings]
    by (auto simp: count_list_map_filter)
qed

lemma length_filtered_movies:
  assumes "sorts_descending srt"
  shows "length (filtered_movies srt ratings) = card {m. 50 \<le> count_list (map r_movie_id ratings) m}"
proof -
  have "card (set (map fst (filtered_movies srt ratings))) = length (map fst (filtered_movies srt ratings))"
    by (rule distinct_card) (rule distinct_keys_filtered_movies [OF assms])
  then show ?thesis
    by (simp only: keys_filtered_movies_count [OF assms] length_map)
qed

lemma filtered_avg_ratings_value:
  assumes "sorts_descending srt"
  shows "filtered_avg_ratings srt ratings =
           Inr (map (\<lambda>m. (m, mean (map r_rating (filter (\<lambda>r. r_movie_id r = m) ratings))))
                  (map fst (filtered_movies srt ratings)))"
proof -
  have sub: "set (map fst (filtered_movies srt ratings)) \<subseteq> r_movie_id ` set ratings"
    using keys_filtered_movies [OF assms, of ratings] by auto
  show ?thesis
    unfolding filtered_avg_ratings_def avg_rating_per_movie_def
    by (rule getitem_groupby_mean [OF sub])
qed

lemma filtered_movies_at_50: "filtered_movies_at 50 srt ratings = filtered_movies srt ratings"
  by (simp add: filtered_movies_at_def filtered_movies_def)

lemma filtered_avg_ratings_at_50: "filtered_avg_ratings_at 50 srt ratings = filtered_avg_ratings srt ratings"
  by (simp add: filtered_avg_ratings_at_def filtered_avg_ratings_def filtered_movies_at_50)


lemma fixture_counts:
  assumes "sorts_descending srt"
  shows "mset (ratings_per_movie srt fixture_ratings) = {#(1, 3), (2, 1)#}"
proof -
  have "map (\<lambda>k. (k, count_list (map r_movie_id fixture_ratings) k)) (unique (map r_movie_id fixture_ratings))
        = [(1, 3), (2, 1)]"
    by (simp add: fixture_ratings_def unique_def)
  then show ?thesis
    unfolding ratings_per_movie_def value_counts_def
    by (simp add: sorts_descending_mset [OF assms])
qed

lemma fixture_threshold_50:
  assumes "sorts_descending srt"
  shows "filtered_movies srt fixture_ratings = []"
proof -
  have "mset (filtered_movies srt fixture_ratings) =
        filter_mset (\<lambda>p. 50 \<le> snd p) (mset (ratings_per_movie srt fixture_ratings))"
    by (simp add: filtered_movies_def ge_mask_def)
  also have "\<dots> = {#}"
    by (simp add: fixture_counts [OF assms])
  finally show ?thesis by simp
qed

lemma merge_on_left_rows:
  "fst ` set (merge_on kl kr left right) = {l \<in> set left. kl l \<in> kr ` set right}"
  by (force simp: set_merge_on)

lemma merge_on_right_rows:
  "snd ` set (merge_on kl kr left right) = {r \<in> set right. kr r \<in> kl ` set left}"
  by (force simp: set_merge_on)









section \<open>Properties of the script\<close>



text \<open>
  C1. The filter of line 136 splits the per-movie rating counts exactly. Every entry of
  \<open>filtered_movies\<close> holds a count of at least 50, and that count is the number of
  rating rows of its movie; every entry of \<open>ratings_per_movie\<close> left out holds a count
  below 50; every movie with a rating is retained or left out, and none is both.
\<close>

theorem filtered_movies_partition:
  assumes "sorts_descending srt"
  shows "(\<forall>p\<in>set (filtered_movies srt ratings).
            50 \<le> snd p \<and> snd p = length (filter (\<lambda>r. r_movie_id r = fst p) ratings)) \<and>
         (\<forall>p\<in>set (ratings_per_movie srt ratings) - set (filtered_movies srt ratings).
            snd p < 50 \<and> snd p = length (filter (\<lambda>r. r_movie_id r = fst p) ratings)) \<and>
         fst ` set (filtered_movies srt ratings) \<union>
           fst ` (set (ratings_per_movie srt ratings) - set (filtered_movies srt ratings)) =
           r_movie_id ` set ratings \<and>
         fst ` set (filtered_movies srt ratings) \<inter>
           fst ` (set (ratings_per_movie srt ratings) - set (filtered_movies srt ratings)) = {}"
proof -
  let ?all = "ratings_per_movie srt ratings"
  let ?kept = "filtered_movies srt ratings"
  have all: "set ?all = (\<lambda>m. (m, length (filter (\<lambda>r. r_movie_id r = m) ratings))) ` r_movie_id ` set ratings"
    by (rule set_ratings_per_movie [OF assms])
  have kept: "set ?kept = {p \<in> set ?all. 50 \<le> snd p}"
    by (rule set_filtered_movies)
  have dist: "distinct (map fst ?all)"
    by (rule distinct_keys_ratings_per_movie [OF assms])
  have c1: "\<forall>p\<in>set ?kept. 50 \<le> snd p \<and> snd p = length (filter (\<lambda>r. r_movie_id r = fst p) ratings)"
    using all kept by auto
  have c2: "\<forall>p\<in>set ?all - set ?kept. snd p < 50 \<and> snd p = length (filter (\<lambda>r. r_movie_id r = fst p) ratings)"
    using all kept by auto
  have "fst ` set ?kept \<union> fst ` (set ?all - set ?kept) = fst ` set ?all"
    using kept by auto
  also have "\<dots> = r_movie_id ` set ratings"
    using all by (auto simp: image_iff)
  finally have c3: "fst ` set ?kept \<union> fst ` (set ?all - set ?kept) = r_movie_id ` set ratings" .
  have c4: "fst ` set ?kept \<inter> fst ` (set ?all - set ?kept) = {}"
  proof (rule ccontr)
    assume "fst ` set ?kept \<inter> fst ` (set ?all - set ?kept) \<noteq> {}"
    then obtain p q where p: "p \<in> set ?kept" and q: "q \<in> set ?all" "q \<notin> set ?kept" and pq: "fst p = fst q"
      by auto
    from p kept have "p \<in> set ?all" by simp
    with q pq dist have "p = q"
      by (metis eq_key_imp_eq_value prod.collapse)
    with p q show False by simp
  qed
  from c1 c2 c3 c4 show ?thesis by blast
qed

theorem filtered_movies_partition_witness:
  "filtered_movies stable_descending popular_ratings = [(9, 51), (7, 50)] \<and>
   set (ratings_per_movie stable_descending popular_ratings) -
     set (filtered_movies stable_descending popular_ratings) = {(1, 3), (2, 1)} \<and>
   fst ` set (filtered_movies stable_descending popular_ratings) \<inter>
     fst ` (set (ratings_per_movie stable_descending popular_ratings) -
            set (filtered_movies stable_descending popular_ratings)) = {}"
proof -
  have all: "ratings_per_movie stable_descending popular_ratings = [(9, 51), (7, 50), (1, 3), (2, 1)]"
    by code_simp
  have kept: "filtered_movies stable_descending popular_ratings = [(9, 51), (7, 50)]"
    by (simp add: filtered_movies_def ge_mask_def all)
  have "set (ratings_per_movie stable_descending popular_ratings) -
        set (filtered_movies stable_descending popular_ratings) = {(1, 3), (2, 1)}"
    by (auto simp: all kept)
  with kept show ?thesis
    using filtered_movies_partition [OF stable_descending_sorts, of popular_ratings] by blast
qed



text \<open>
  C9. The lookup of line 141 never raises. Every movie id that the filter of line 136
  retains is a label of \<open>avg_rating_per_movie\<close>, since both aggregations are keyed by
  the movie ids of the same ratings table; so \<open>filtered_avg_ratings\<close> is a series, not
  \<^verbatim>\<open>KeyError\<close>: the retained movie ids in the order of \<open>filtered_movies\<close>, each with
  the mean of its ratings.
\<close>

theorem filtered_avg_ratings_total:
  assumes "sorts_descending srt"
  shows "fst ` set (filtered_movies srt ratings) \<subseteq> fst ` set (avg_rating_per_movie ratings) \<and>
         filtered_avg_ratings srt ratings =
           Inr (map (\<lambda>m. (m, mean (map r_rating (filter (\<lambda>r. r_movie_id r = m) ratings))))
                  (map fst (filtered_movies srt ratings)))"
proof -
  have "set (map fst (filtered_movies srt ratings)) \<subseteq> r_movie_id ` set ratings"
    using keys_filtered_movies [OF assms, of ratings] by auto
  then have "fst ` set (filtered_movies srt ratings) \<subseteq> fst ` set (avg_rating_per_movie ratings)"
    by (simp add: avg_rating_per_movie_def set_keys_groupby_mean)
  then show ?thesis
    using filtered_avg_ratings_value [OF assms, of ratings] by simp
qed

theorem filtered_avg_ratings_total_witness:
  "filtered_movies stable_descending popular_ratings = [(9, 51), (7, 50)] \<and>
   avg_rating_per_movie popular_ratings = [(1, 14 / 3), (2, 1), (7, 4), (9, 3)] \<and>
   filtered_avg_ratings stable_descending popular_ratings = Inr [(9, 3), (7, 4)]"
proof -
  have kept: "filtered_movies stable_descending popular_ratings = [(9, 51), (7, 50)]"
    by code_simp
  have avg: "avg_rating_per_movie popular_ratings = [(1, 14 / 3), (2, 1), (7, 4), (9, 3)]"
    by code_simp
  have m9: "mean (map r_rating (filter (\<lambda>r. r_movie_id r = 9) popular_ratings)) = 3"
    by code_simp
  have m7: "mean (map r_rating (filter (\<lambda>r. r_movie_id r = 7) popular_ratings)) = 4"
    by code_simp
  show ?thesis
    using filtered_avg_ratings_total [OF stable_descending_sorts, of popular_ratings]
    by (simp add: kept avg m9 m7)
qed

text \<open>
  C10. The selection of line 146 never fails for want of movies. For every ratings table
  \<open>top_10_movies\<close> is a series, and it has \<open>min 10 n\<close> entries, where \<open>n\<close> is the number
  of movies with at least 50 ratings; when no movie has 50 ratings it is the empty series.
\<close>

theorem top_10_movies_length:
  assumes "sorts_descending srt" and "sorts_descending srtm"
  shows "\<exists>t. top_10_movies srt srtm ratings = Inr t \<and>
             length t = min 10 (card {m. 50 \<le> count_list (map r_movie_id ratings) m}) \<and>
             (card {m. 50 \<le> count_list (map r_movie_id ratings) m} = 0 \<longrightarrow> t = [])"
proof -
  let ?favg = "map (\<lambda>m. (m, mean (map r_rating (filter (\<lambda>r. r_movie_id r = m) ratings))))
                  (map fst (filtered_movies srt ratings))"
  let ?n = "card {m. 50 \<le> count_list (map r_movie_id ratings) m}"
  have top: "top_10_movies srt srtm ratings = Inr (head 10 (srtm ?favg))"
    by (simp add: top_10_movies_def filtered_avg_ratings_value [OF assms(1)])
  have "length (srtm ?favg) = length ?favg"
    by (rule sorts_descending_length [OF assms(2)])
  also have "\<dots> = ?n"
    by (simp add: length_filtered_movies [OF assms(1)])
  finally have len: "length (head 10 (srtm ?favg)) = min 10 ?n"
    by (simp add: head_def min.commute)
  then have "?n = 0 \<longrightarrow> head 10 (srtm ?favg) = []"
    by auto
  with top len show ?thesis by simp
qed

theorem top_10_movies_length_witness:
  "top_10_movies stable_descending stable_descending popular_ratings = Inr [(7, 4), (9, 3)] \<and>
   card {m. 50 \<le> count_list (map r_movie_id popular_ratings) m} = 2 \<and>
   top_10_movies stable_descending stable_descending fixture_ratings = Inr [] \<and>
   card {m. 50 \<le> count_list (map r_movie_id fixture_ratings) m} = 0 \<and>
   top_10_movies stable_descending stable_descending many_ratings =
     Inr [(4, 5), (9, 5), (3, 4), (8, 4), (2, 3), (7, 3), (1, 2), (6, 2), (11, 2), (5, 1)] \<and>
   min 10 (card {m. 50 \<le> count_list (map r_movie_id many_ratings) m}) = 10"
proof -
  have p: "top_10_movies stable_descending stable_descending popular_ratings = Inr [(7, 4), (9, 3)]"
    by code_simp
  have f: "top_10_movies stable_descending stable_descending fixture_ratings = Inr []"
    by code_simp
  have m: "top_10_movies stable_descending stable_descending many_ratings =
     Inr [(4, 5), (9, 5), (3, 4), (8, 4), (2, 3), (7, 3), (1, 2), (6, 2), (11, 2), (5, 1)]"
    by code_simp
  have "card {m. 50 \<le> count_list (map r_movie_id popular_ratings) m} = 2"
    using top_10_movies_length [OF stable_descending_sorts stable_descending_sorts, of popular_ratings]
    by (simp add: p min_def split: if_splits)
  moreover have "card {m. 50 \<le> count_list (map r_movie_id fixture_ratings) m} = 0"
    using top_10_movies_length [OF stable_descending_sorts stable_descending_sorts, of fixture_ratings]
    by (simp add: f)
  moreover have "min 10 (card {m. 50 \<le> count_list (map r_movie_id many_ratings) m}) = 10"
    using top_10_movies_length [OF stable_descending_sorts stable_descending_sorts, of many_ratings]
    by (simp add: m)
  ultimately show ?thesis
    using p f m by simp
qed





text \<open>
  C5. Both joins are inner joins. The join of line 160 and the join of line 211 hold
  exactly the pairs of a left row and a right row with the same key: a row of either
  table whose key the other table does not have is in no result row, and a row whose key
  is matched is in one. Neither join raises on an unmatched key: \<open>ratings_users\<close> is a
  table for all inputs, and \<open>top_10_movies_df\<close> is a table whatever the movie table
  holds.
\<close>

theorem joins_are_inner:
  assumes "sorts_descending srt"
  shows "(\<exists>t df.
            top_10_movies srt srtm ratings = Inr t \<and>
            top_10_movies_df srt srtm movie ratings = Inr df \<and>
            set df = {(l, m). l \<in> set t \<and> m \<in> set (movie_titles movie) \<and> fst m = fst l} \<and>
            (\<forall>l\<in>set t. l \<in> fst ` set df \<longleftrightarrow> fst l \<in> m_movie_id ` set movie) \<and>
            (\<forall>m\<in>set (movie_titles movie). m \<in> snd ` set df \<longleftrightarrow> fst m \<in> fst ` set t)) \<and>
         set (ratings_users ratings user) =
           {(r, u). r \<in> set ratings \<and> u \<in> set user \<and> u_user_id u = r_user_id r} \<and>
         (\<forall>r\<in>set ratings.
            r \<in> fst ` set (ratings_users ratings user) \<longleftrightarrow> r_user_id r \<in> u_user_id ` set user) \<and>
         (\<forall>u\<in>set user.
            u \<in> snd ` set (ratings_users ratings user) \<longleftrightarrow> u_user_id u \<in> r_user_id ` set ratings)"
proof -
  obtain t where t: "top_10_movies srt srtm ratings = Inr t"
    by (simp add: top_10_movies_def filtered_avg_ratings_value [OF assms])
  let ?df = "merge_on fst fst t (movie_titles movie)"
  have df: "top_10_movies_df srt srtm movie ratings = Inr ?df"
    by (simp add: top_10_movies_df_def t reset_index_def)
  have ids: "fst ` set (movie_titles movie) = m_movie_id ` set movie"
    by (force simp: movie_titles_def)
  have a: "set ?df = {(l, m). l \<in> set t \<and> m \<in> set (movie_titles movie) \<and> fst m = fst l}"
    by (rule set_merge_on)
  have b: "\<forall>l\<in>set t. l \<in> fst ` set ?df \<longleftrightarrow> fst l \<in> m_movie_id ` set movie"
    by (simp add: merge_on_left_rows ids)
  have c: "\<forall>m\<in>set (movie_titles movie). m \<in> snd ` set ?df \<longleftrightarrow> fst m \<in> fst ` set t"
    by (simp add: merge_on_right_rows)
  have d: "set (ratings_users ratings user) =
           {(r, u). r \<in> set ratings \<and> u \<in> set user \<and> u_user_id u = r_user_id r}"
    unfolding ratings_users_def by (rule set_merge_on)
  have e: "\<forall>r\<in>set ratings.
            r \<in> fst ` set (ratings_users ratings user) \<longleftrightarrow> r_user_id r \<in> u_user_id ` set user"
    by (simp add: ratings_users_def merge_on_left_rows)
  have f: "\<forall>u\<in>set user.
            u \<in> snd ` set (ratings_users ratings user) \<longleftrightarrow> u_user_id u \<in> r_user_id ` set ratings"
    by (simp add: ratings_users_def merge_on_right_rows)
  from t df a b c d e f show ?thesis by blast
qed

theorem joins_are_inner_witness:
  "top_10_movies stable_descending stable_descending popular_ratings = Inr [(7, 4), (9, 3)] \<and>
   top_10_movies_df stable_descending stable_descending fixture_movie popular_ratings =
     Inr [((7, 4), (7, ''Twelve Monkeys (1995)''))] \<and>
   (9, 3) \<notin> fst ` set [((7 :: int, 4 :: rat), (7 :: int, ''Twelve Monkeys (1995)''))] \<and>
   length (ratings_users fixture_ratings fixture_user) = 3 \<and>
   \<lparr>r_user_id = 3, r_movie_id = 1, r_rating = 4\<rparr> \<in> set fixture_ratings \<and>
   \<lparr>r_user_id = 3, r_movie_id = 1, r_rating = 4\<rparr> \<notin> fst ` set (ratings_users fixture_ratings fixture_user)"
proof -
  let ?r = "\<lparr>r_user_id = 3, r_movie_id = 1, r_rating = 4\<rparr>"
  have top: "top_10_movies stable_descending stable_descending popular_ratings = Inr [(7, 4), (9, 3)]"
    by code_simp
  have df: "top_10_movies_df stable_descending stable_descending fixture_movie popular_ratings =
     Inr [((7, 4), (7, ''Twelve Monkeys (1995)''))]"
    by code_simp
  obtain t d where "top_10_movies stable_descending stable_descending popular_ratings = Inr t"
    and "top_10_movies_df stable_descending stable_descending fixture_movie popular_ratings = Inr d"
    and "\<forall>l\<in>set t. l \<in> fst ` set d \<longleftrightarrow> fst l \<in> m_movie_id ` set fixture_movie"
    using joins_are_inner [OF stable_descending_sorts,
        where srtm = stable_descending and ratings = popular_ratings and movie = fixture_movie,
        THEN conjunct1]
    by (elim exE conjE) (rule that, assumption+)
  with top df have "\<forall>l\<in>set [(7 :: int, 4 :: rat), (9, 3)].
      l \<in> fst ` set [((7 :: int, 4 :: rat), (7 :: int, ''Twelve Monkeys (1995)''))] \<longleftrightarrow>
      fst l \<in> m_movie_id ` set fixture_movie"
    by simp
  then have dropped: "(9, 3) \<notin> fst ` set [((7 :: int, 4 :: rat), (7 :: int, ''Twelve Monkeys (1995)''))]"
    by (simp add: fixture_movie_def)
  have len: "length (ratings_users fixture_ratings fixture_user) = 3"
    by code_simp
  have r: "?r \<in> set fixture_ratings"
    by (simp add: fixture_ratings_def)
  have "r_user_id ?r \<notin> u_user_id ` set fixture_user"
    by (simp add: fixture_user_def)
  moreover have "\<forall>r\<in>set fixture_ratings.
      r \<in> fst ` set (ratings_users fixture_ratings fixture_user) \<longleftrightarrow>
      r_user_id r \<in> u_user_id ` set fixture_user"
    by (rule joins_are_inner [OF stable_descending_sorts,
        where ratings = fixture_ratings and user = fixture_user,
        THEN conjunct2, THEN conjunct2, THEN conjunct1])
  ultimately have "?r \<notin> fst ` set (ratings_users fixture_ratings fixture_user)"
    using r by blast
  with top df dropped len r show ?thesis
    by (simp only: simp_thms)
qed





end
